theory Spec2Isabelle
  imports Complex_Main
begin

section \<open>The editor component \<open>src/components/Canvas.tsx\<close>\<close>

text \<open>
  The component keeps a canvas of the graphics library (\<open>null\<close> until it is mounted) and
  the React state \<open>history\<close>, \<open>redoStack\<close>, \<open>selectedObject\<close>, \<open>selectedText\<close> and
  \<open>isLayerModalOpen\<close>. Every handler of the component is modelled as a function on
  that state. The library calls the handlers make are modelled by what they do to the
  object list of the canvas and by the events they fire, because the component registers
  listeners for those events (lines 238-243, 296-301 and 428-435) and the listeners change
  the React state.

  Numbers are JavaScript numbers in the source; they are rationals here, so rounding
  error of floating point is outside the model.
\<close>

subsection \<open>Objects of the canvas\<close>

datatype image_filter = Grayscale | Sepia

text \<open>
  The attributes of an object that the library writes into the JSON of the canvas
  (\<open>toObject\<close>). The source names \<open>left\<close>, \<open>top\<close>, \<open>type\<close> and \<open>text\<close> are \<open>oleft\<close>,
  \<open>otop\<close>, \<open>otype\<close> and \<open>content\<close>; \<open>x1 .. y2\<close> are the end points of a line.
\<close>

record props =
  otype :: string
  oleft :: rat
  otop :: rat
  width :: rat
  height :: rat
  radius :: rat
  fill :: string
  stroke :: string
  scaleX :: rat
  scaleY :: rat
  visible :: bool
  content :: string
  fontSize :: int
  fontFamily :: string
  textAlign :: string
  src :: string
  filters :: "image_filter list"
  x1 :: rat
  y1 :: rat
  x2 :: rat
  y2 :: rat

text \<open>
  A live object: its serialised attributes and the interaction flags, which the library
  keeps on the object and does not write into the JSON.
\<close>

record fobj =
  props :: props
  selectable :: bool
  evented :: bool
  excludeFromExport :: bool
  lockMovementX :: bool
  lockMovementY :: bool
  lockScalingX :: bool
  lockScalingY :: bool
  lockRotation :: bool

text \<open>The attribute values of an object constructed with no options.\<close>

definition blank :: props where
  "blank = \<lparr>otype = '''', oleft = 0, otop = 0, width = 0, height = 0, radius = 0,
     fill = ''rgb(0,0,0)'', stroke = '''', scaleX = 1, scaleY = 1, visible = True,
     content = '''', fontSize = 40, fontFamily = ''Times New Roman'', textAlign = ''left'',
     src = '''', filters = [], x1 = 0, y1 = 0, x2 = 0, y2 = 0\<rparr>"

text \<open>
  A constructor call and the revival of an object from JSON both give an object with the
  default flags: selectable, evented, exported, unlocked.
\<close>

definition new_object :: "props \<Rightarrow> fobj" where
  "new_object p = \<lparr>props = p, selectable = True, evented = True, excludeFromExport = False,
     lockMovementX = False, lockMovementY = False, lockScalingX = False,
     lockScalingY = False, lockRotation = False\<rparr>"

subsection \<open>The canvas and its JSON\<close>

text \<open>
  \<open>getActiveObject\<close> returns nothing, one object, or the group object of a multiple
  selection (whose type is \<open>activeSelection\<close>). Objects are referred to by their position in
  the object list of the canvas.
\<close>

datatype selection = NoSelection | ActiveObject nat | ActiveSelection "nat list"

record fcanvas =
  objs :: "fobj list"
  backgroundColor :: string
  getWidth :: rat
  getHeight :: rat
  active :: selection

text \<open>
  The value that \<open>canvas.toJSON()\<close> returns and \<open>JSON.stringify\<close> prints: the attributes of
  the objects not excluded from export, in z-order, and the background. A snapshot stands
  for its JSON text: two texts are byte-identical exactly when the snapshots are equal.
\<close>

record snapshot =
  s_objects :: "props list"
  s_background :: string

definition toJSON :: "fcanvas \<Rightarrow> snapshot" where
  "toJSON c = \<lparr>s_objects = map props (filter (\<lambda>ob. \<not> excludeFromExport ob) (objs c)),
                s_background = backgroundColor c\<rparr>"

subsection \<open>State of the component\<close>

record editor =
  canvas :: "fcanvas option"
  history :: "snapshot list"
  redoStack :: "snapshot list"
  selectedObject :: selection
  selectedText :: "nat option"
  isLayerModalOpen :: bool

text \<open>Lines 74-78.\<close>

definition saveState :: "fcanvas \<Rightarrow> editor \<Rightarrow> editor" where
  "saveState currentCanvas ed =
     ed\<lparr>history := history ed @ [toJSON currentCanvas], redoStack := []\<rparr>"

text \<open>
  \<open>saveState(canvas)\<close> as a handler calls it: the argument is the canvas of the component,
  read when the call happens. This is also the listener of lines 428-435 for
  \<open>object:added\<close>, \<open>object:removed\<close> and \<open>object:modified\<close>.
\<close>

definition saveCurrent :: "editor \<Rightarrow> editor" where
  "saveCurrent ed = (case canvas ed of None \<Rightarrow> ed | Some c \<Rightarrow> saveState c ed)"

subsection \<open>Drawing the grid and mounting (lines 49-71 and 266-302)\<close>

definition gridSize :: rat where
  "gridSize = 50"

definition vertical_line :: "rat \<Rightarrow> rat \<Rightarrow> fobj" where
  "vertical_line distance h =
     (new_object (blank\<lparr>otype := ''line'', stroke := ''#e0e0e0'',
        x1 := distance, y1 := 0, x2 := distance, y2 := h\<rparr>))
     \<lparr>selectable := False, evented := False, excludeFromExport := True\<rparr>"

definition horizontal_line :: "rat \<Rightarrow> rat \<Rightarrow> fobj" where
  "horizontal_line distance w =
     (new_object (blank\<lparr>otype := ''line'', stroke := ''#e0e0e0'',
        x1 := 0, y1 := distance, x2 := w, y2 := distance\<rparr>))
     \<lparr>selectable := False, evented := False, excludeFromExport := True\<rparr>"

text \<open>
  The number of rounds of \<open>for (let i = 0; i <= extent / gridSize; i++)\<close>.
\<close>

definition rounds :: "rat \<Rightarrow> nat" where
  "rounds extent = (if extent < 0 then 0 else Suc (nat \<lfloor>extent / gridSize\<rfloor>))"

text \<open>
  \<open>drawGrid\<close> runs inside the first effect, before the listeners of lines 428-435 exist
  (they are registered by a later effect, once the canvas is in the state), so adding the
  lines saves no state. The listener of \<open>object:moving\<close> that \<open>drawGrid\<close> registers is
  \<open>on_object_moving\<close> below. \<open>mount\<close> is the effect of lines 49-66 with the canvas element
  present.
\<close>

definition drawGrid :: "fcanvas \<Rightarrow> fcanvas" where
  "drawGrid c =
     (let w = getWidth c; h = getHeight c;
          vs = map (\<lambda>i. vertical_line (of_nat i * gridSize) h) [0 ..< rounds w];
          hs = map (\<lambda>i. horizontal_line (of_nat i * gridSize) w) [0 ..< rounds h]
      in c\<lparr>objs := objs c @ vs @ hs\<rparr>)"

definition unmounted :: editor where
  "unmounted = \<lparr>canvas = None, history = [], redoStack = [], selectedObject = NoSelection,
     selectedText = None, isLayerModalOpen = False\<rparr>"

definition mount :: "editor \<Rightarrow> editor" where
  "mount ed =
     (case canvas ed of
        Some c \<Rightarrow> ed
      | None \<Rightarrow>
          (let fabricCanvas = drawGrid \<lparr>objs = [], backgroundColor = ''#ffffff'',
                 getWidth = 800, getHeight = 600, active = NoSelection\<rparr>
           in saveState fabricCanvas (ed\<lparr>canvas := Some fabricCanvas\<rparr>)))"

definition init_editor :: editor where
  "init_editor = mount unmounted"

subsection \<open>Library calls that fire the listeners of the component\<close>

text \<open>
  The named imports of lines 4-14 are those of version 6 of the library, and the calls
  are modelled with the meaning they have there.

  After mounting, the listeners of lines 428-435 are registered, so every object the
  library adds to or removes from the canvas saves the state. \<open>canvas.add\<close> appends the
  object and fires \<open>object:added\<close>.
\<close>

datatype js_error = SyntaxError | TypeError

definition set_objs :: "fobj list \<Rightarrow> editor \<Rightarrow> editor" where
  "set_objs os ed = ed\<lparr>canvas := map_option (\<lambda>c. c\<lparr>objs := os\<rparr>) (canvas ed)\<rparr>"

definition canvas_add :: "fobj \<Rightarrow> editor \<Rightarrow> editor" where
  "canvas_add ob ed =
     (case canvas ed of
        None \<Rightarrow> ed
      | Some c \<Rightarrow> saveCurrent (set_objs (objs c @ [ob]) ed))"

text \<open>
  \<open>canvas.add(...objects)\<close> with several objects appends all of them and then fires
  \<open>object:added\<close> once for each, so every listener call sees all of them on the canvas.
\<close>

fun fire_each :: "fobj list \<Rightarrow> editor \<Rightarrow> editor" where
  "fire_each [] ed = ed"
| "fire_each (ob # rest) ed = fire_each rest (saveCurrent ed)"

definition add_all :: "fobj list \<Rightarrow> editor \<Rightarrow> editor" where
  "add_all obs ed =
     (case canvas ed of
        None \<Rightarrow> ed
      | Some c \<Rightarrow> fire_each obs (set_objs (objs c @ obs) ed))"

text \<open>
  \<open>canvas.clear()\<close> removes the objects one by one, first to last, and fires
  \<open>object:removed\<close> after each removal; the argument is the list of the objects still on
  the canvas.
\<close>

fun remove_each :: "fobj list \<Rightarrow> editor \<Rightarrow> editor" where
  "remove_each [] ed = ed"
| "remove_each (ob # rest) ed = remove_each rest (saveCurrent (set_objs rest ed))"

text \<open>
  Removing the active object discards the selection and fires \<open>selection:cleared\<close>, whose
  listener (lines 240-243) resets both selection states; after the removals \<open>clear\<close>
  resets the background.
\<close>

definition clear :: "editor \<Rightarrow> editor" where
  "clear ed =
     (case canvas ed of
        None \<Rightarrow> ed
      | Some c \<Rightarrow>
          (let ed1 = remove_each (objs c) ed
           in ed1\<lparr>canvas := map_option (\<lambda>c1. c1\<lparr>backgroundColor := [], active := NoSelection\<rparr>)
                                (canvas ed1),
                  selectedObject := NoSelection, selectedText := None\<rparr>))"

text \<open>
  \<open>canvas.loadFromJSON(json, f)\<close> for a text that decodes to the snapshot \<open>s\<close>. The second
  argument is the reviver: the library calls it once for every object it revives, and it
  revives all objects before it touches the canvas. Then it clears the canvas, adds the
  revived objects with one \<open>add\<close>, and sets the background last. For a snapshot without
  objects the reviver is never called.
\<close>

fun revive_each :: "props list \<Rightarrow> (editor \<Rightarrow> editor) \<Rightarrow> editor \<Rightarrow> editor" where
  "revive_each [] reviver ed = ed"
| "revive_each (p # rest) reviver ed = revive_each rest reviver (reviver ed)"

definition loadFromJSON :: "snapshot \<Rightarrow> (editor \<Rightarrow> editor) \<Rightarrow> editor \<Rightarrow> editor" where
  "loadFromJSON s reviver ed =
     (let ed1 = revive_each (s_objects s) reviver ed;
          ed2 = clear ed1;
          ed3 = add_all (map new_object (s_objects s)) ed2
      in ed3\<lparr>canvas := map_option (\<lambda>c. c\<lparr>backgroundColor := s_background s\<rparr>) (canvas ed3)\<rparr>)"

subsection \<open>Undo and redo (lines 81-99)\<close>

text \<open>
  \<open>history.pop()\<close> and \<open>redoStack.pop()\<close> shorten the array that is the React state.
  The function \<open>undo\<close> passes to \<open>loadFromJSON\<close> stores a copy of the shortened \<open>history\<close>;
  as the reviver it runs before the canvas is cleared, so the snapshots that the listeners
  append while the canvas is reloaded stay in the history. The function \<open>redo\<close> passes only
  renders.
\<close>

definition undo :: "editor \<Rightarrow> editor" where
  "undo ed =
     (if length (history ed) > 1 then
        (let prevState = history ed ! (length (history ed) - 2);
             popped = butlast (history ed);
             ed1 = ed\<lparr>redoStack := redoStack ed @ [last (history ed)], history := popped\<rparr>
         in case canvas ed1 of
              None \<Rightarrow> ed1
            | Some c \<Rightarrow> loadFromJSON prevState (\<lambda>e. e\<lparr>history := popped\<rparr>) ed1)
      else ed)"

definition redo :: "editor \<Rightarrow> editor" where
  "redo ed =
     (if length (redoStack ed) > 0 then
        (let nextState = last (redoStack ed);
             ed1 = ed\<lparr>redoStack := butlast (redoStack ed), history := history ed @ [nextState]\<rparr>
         in case canvas ed1 of
              None \<Rightarrow> ed1
            | Some c \<Rightarrow> loadFromJSON nextState (\<lambda>e. e) ed1)
      else ed)"

subsection \<open>Inserting shapes, text and images (lines 102-142 and 192-205)\<close>

definition new_Rect :: fobj where
  "new_Rect = new_object (blank\<lparr>otype := ''rect'', width := 100, height := 100,
     fill := ''#0000ff'', oleft := 50, otop := 50\<rparr>)"

definition new_Circle :: fobj where
  "new_Circle = new_object (blank\<lparr>otype := ''circle'', radius := 50,
     fill := ''#00ff00'', oleft := 200, otop := 200\<rparr>)"

definition new_IText :: fobj where
  "new_IText = new_object (blank\<lparr>otype := ''i-text'', content := ''Edit me!'',
     oleft := 300, otop := 300, fontSize := 20, fill := ''#000000''\<rparr>)"

definition addRectangle :: "editor \<Rightarrow> editor" where
  "addRectangle ed =
     (case canvas ed of None \<Rightarrow> ed | Some c \<Rightarrow> saveCurrent (canvas_add new_Rect ed))"

definition addCircle :: "editor \<Rightarrow> editor" where
  "addCircle ed =
     (case canvas ed of None \<Rightarrow> ed | Some c \<Rightarrow> saveCurrent (canvas_add new_Circle ed))"

definition addText :: "editor \<Rightarrow> editor" where
  "addText ed =
     (case canvas ed of None \<Rightarrow> ed | Some c \<Rightarrow> saveCurrent (canvas_add new_IText ed))"

text \<open>
  A chosen image file, once read: its data URL. \<open>img.scaleToWidth(300)\<close> sets both
  scale factors of the image to \<open>300 / width\<close>. A decoded image has a positive width;
  for width 0 the source computes a non-finite factor, which a rational cannot hold (the
  quotient below is 0 there).
\<close>

record image_file =
  data_url :: string

definition scaleToWidth :: "rat \<Rightarrow> fobj \<Rightarrow> fobj" where
  "scaleToWidth v ob =
     ob\<lparr>props := (props ob)\<lparr>scaleX := v / width (props ob), scaleY := v / width (props ob)\<rparr>\<rparr>"

text \<open>
  \<open>FabricImage.fromURL(url, f)\<close> takes options as its second argument and returns a
  promise of the image: it never calls \<open>f\<close>, and the handler drops the promise.
\<close>

definition FabricImage_fromURL ::
    "string \<Rightarrow> (fobj \<Rightarrow> editor \<Rightarrow> editor) \<Rightarrow> editor \<Rightarrow> editor" where
  "FabricImage_fromURL url callback ed = ed"

definition handleImageUpload :: "image_file option \<Rightarrow> editor \<Rightarrow> editor" where
  "handleImageUpload file ed =
     (case file of
        None \<Rightarrow> ed
      | Some f \<Rightarrow>
          (case canvas ed of
             None \<Rightarrow> ed
           | Some c \<Rightarrow>
               FabricImage_fromURL (data_url f)
                 (\<lambda>img e. saveCurrent (canvas_add (scaleToWidth 300 img) e)) ed))"

subsection \<open>Selection (lines 59 and 227-245)\<close>

text \<open>Lines 229-237; \<open>target\<close> is \<open>e.target\<close> of the selection event.\<close>

definition updateSelection :: "selection \<Rightarrow> editor \<Rightarrow> editor" where
  "updateSelection target ed =
     ed\<lparr>selectedObject := target,
        selectedText :=
          (case target of
             ActiveObject i \<Rightarrow>
               (case canvas ed of
                  None \<Rightarrow> None
                | Some c \<Rightarrow>
                    if i < length (objs c) \<and> otype (props (objs c ! i)) = ''i-text''
                    then Some i else None)
           | _ \<Rightarrow> None)\<rparr>"

text \<open>
  Making an object active fires \<open>selection:created\<close> or \<open>selection:updated\<close>. These
  events carry the selected and deselected objects and no \<open>target\<close>, so the listener
  reads \<open>undefined\<close>, which \<open>NoSelection\<close> stands for.
\<close>

definition setActiveObject :: "selection \<Rightarrow> editor \<Rightarrow> editor" where
  "setActiveObject sel ed =
     updateSelection NoSelection
       (ed\<lparr>canvas := map_option (\<lambda>c. c\<lparr>active := sel\<rparr>) (canvas ed)\<rparr>)"

definition discardActiveObject :: "editor \<Rightarrow> editor" where
  "discardActiveObject ed =
     ed\<lparr>canvas := map_option (\<lambda>c. c\<lparr>active := NoSelection\<rparr>) (canvas ed),
        selectedObject := NoSelection, selectedText := None\<rparr>"

text \<open>
  The two ways the pointer selects. A press finds its target among the visible objects
  that take events, and selects the target if it is selectable. With
  \<open>canvas.selection = true\<close> (line 59) a press on no target starts a selection rectangle,
  which on release selects the selectable visible objects it meets; \<open>touched\<close> lists the
  objects the rectangle meets (the geometry is the library's).
\<close>

definition pointer_target :: "fobj \<Rightarrow> bool" where
  "pointer_target ob \<longleftrightarrow> visible (props ob) \<and> evented ob"


definition select_area :: "nat list \<Rightarrow> editor \<Rightarrow> editor" where
  "select_area touched ed =
     (case canvas ed of
        None \<Rightarrow> ed
      | Some c \<Rightarrow>
          (let ed1 = discardActiveObject ed;
               picked = filter (\<lambda>i. i < length (objs c) \<and> selectable (objs c ! i)
                                   \<and> visible (props (objs c ! i))) touched
           in case picked of
                [] \<Rightarrow> ed1
              | [i] \<Rightarrow> setActiveObject (ActiveObject i) ed1
              | _ \<Rightarrow> setActiveObject (ActiveSelection picked) ed1))"

subsection \<open>Snap to grid and dragging (lines 296-301)\<close>

text \<open>\<open>Math.round\<close> rounds to the nearest integer, a half upwards.\<close>

definition Math_round :: "rat \<Rightarrow> int" where
  "Math_round x = \<lfloor>x + 1 / 2\<rfloor>"

definition snap :: "rat \<Rightarrow> rat" where
  "snap v = of_int (Math_round (v / gridSize)) * gridSize"

text \<open>The listener of \<open>object:moving\<close>, applied to the target of the event.\<close>

definition on_object_moving :: "fobj \<Rightarrow> fobj" where
  "on_object_moving target =
     target\<lparr>props := (props target)\<lparr>oleft := snap (oleft (props target)),
                                       otop := snap (otop (props target))\<rparr>\<rparr>"

text \<open>
  One pointer move of a drag: the library puts the object where the pointer takes it and
  fires \<open>object:moving\<close>.
\<close>

definition move_object :: "nat \<Rightarrow> fcanvas \<Rightarrow> rat \<times> rat \<Rightarrow> fcanvas" where
  "move_object i c pos =
     c\<lparr>objs := (objs c)[i := on_object_moving
         ((objs c ! i)\<lparr>props := (props (objs c ! i))\<lparr>oleft := fst pos, otop := snd pos\<rparr>\<rparr>)]\<rparr>"

text \<open>
  A drag of object \<open>i\<close> through the positions \<open>moves\<close>: the press selects the object, every
  move is a \<open>move_object\<close>, and the release fires \<open>object:modified\<close> if the object was
  moved, which the first pointer move of a drag always does. A press that does not grab
  the object starts no drag of it.
\<close>

definition drag :: "nat \<Rightarrow> (rat \<times> rat) list \<Rightarrow> editor \<Rightarrow> editor" where
  "drag i moves ed =
     (case canvas ed of
        None \<Rightarrow> ed
      | Some c \<Rightarrow>
          if i < length (objs c) \<and> pointer_target (objs c ! i) \<and> selectable (objs c ! i)
          then
            (let ed1 = setActiveObject (ActiveObject i) ed;
                 ed2 = ed1\<lparr>canvas := map_option (\<lambda>c1. foldl (move_object i) c1 moves) (canvas ed1)\<rparr>
             in if moves = [] then ed2 else saveCurrent ed2)
          else ed)"

subsection \<open>Filters and property edits (lines 208-263)\<close>

definition edit_object :: "nat \<Rightarrow> (props \<Rightarrow> props) \<Rightarrow> editor \<Rightarrow> editor" where
  "edit_object i f ed =
     ed\<lparr>canvas := map_option
          (\<lambda>c. c\<lparr>objs := (objs c)[i := (objs c ! i)\<lparr>props := f (props (objs c ! i))\<rparr>]\<rparr>)
          (canvas ed)\<rparr>"

text \<open>
  \<open>new ImageFilters.Grayscale()\<close> and \<open>new ImageFilters.Sepia()\<close>: the library exports no
  \<open>ImageFilters\<close>, so the imported binding is undefined and reading a member of it throws.
\<close>

definition new_ImageFilter :: "image_filter \<Rightarrow> js_error + image_filter" where
  "new_ImageFilter f = Inl TypeError"

text \<open>
  The \<open>switch\<close> of lines 211-219: the filter list to assign, \<open>None\<close> when no case matches.
\<close>

definition chosen_filters :: "string \<Rightarrow> js_error + image_filter list option" where
  "chosen_filters filterType =
     (if filterType = ''grayscale'' then
        (case new_ImageFilter Grayscale of Inl e \<Rightarrow> Inl e | Inr f \<Rightarrow> Inr (Some [f]))
      else if filterType = ''sepia'' then
        (case new_ImageFilter Sepia of Inl e \<Rightarrow> Inl e | Inr f \<Rightarrow> Inr (Some [f]))
      else Inr None)"

text \<open>
  An exception leaves the handler at once, uncaught: \<open>Inl\<close> holds it with the state at
  that moment.
\<close>

definition applyFilter :: "string \<Rightarrow> editor \<Rightarrow> (js_error \<times> editor) + editor" where
  "applyFilter filterType ed =
     (case canvas ed of
        None \<Rightarrow> Inr ed
      | Some c \<Rightarrow>
          (case active c of
             ActiveObject i \<Rightarrow>
               if i < length (objs c) \<and> otype (props (objs c ! i)) = ''image''
               then
                 (case chosen_filters filterType of
                    Inl e \<Rightarrow> Inl (e, ed)
                  | Inr None \<Rightarrow> Inr (saveCurrent ed)
                  | Inr (Some fs) \<Rightarrow> Inr (saveCurrent (edit_object i (\<lambda>p. p\<lparr>filters := fs\<rparr>) ed)))
               else Inr ed
           | _ \<Rightarrow> Inr ed))"

text \<open>
  \<open>set(property, value)\<close> for the properties the controls of lines 506-575 pass. On the
  group object of a multiple selection it changes no object of the canvas. A selection
  exists only on a mounted canvas, so \<open>saveState(canvas!)\<close> is \<open>saveCurrent\<close>.
\<close>

datatype prop_value = Str string | Num int

definition set_prop :: "string \<Rightarrow> prop_value \<Rightarrow> props \<Rightarrow> props" where
  "set_prop property v p =
     (case v of
        Str s \<Rightarrow>
          if property = ''fill'' then p\<lparr>fill := s\<rparr>
          else if property = ''stroke'' then p\<lparr>stroke := s\<rparr>
          else if property = ''fontFamily'' then p\<lparr>fontFamily := s\<rparr>
          else if property = ''textAlign'' then p\<lparr>textAlign := s\<rparr>
          else p
      | Num n \<Rightarrow> if property = ''fontSize'' then p\<lparr>fontSize := n\<rparr> else p)"

definition updateObjectColor :: "string \<Rightarrow> string \<Rightarrow> editor \<Rightarrow> editor" where
  "updateObjectColor property v ed =
     (case selectedObject ed of
        NoSelection \<Rightarrow> ed
      | ActiveObject i \<Rightarrow> saveCurrent (edit_object i (set_prop property (Str v)) ed)
      | ActiveSelection members \<Rightarrow> saveCurrent ed)"

definition updateTextProperty :: "string \<Rightarrow> prop_value \<Rightarrow> editor \<Rightarrow> editor" where
  "updateTextProperty property v ed =
     (case selectedText ed of
        None \<Rightarrow> ed
      | Some i \<Rightarrow> saveCurrent (edit_object i (set_prop property v) ed))"

subsection \<open>Saving and loading a project (lines 305-330)\<close>

text \<open>
  The text of a project file: a text that is not JSON, or a JSON document with its
  \<open>objects\<close> member (\<open>None\<close> when the document has none, as in \<open>{}\<close>; the objects are
  objects the library can revive) and its \<open>background\<close>. \<open>JSON.parse\<close> throws on the
  first; the library reads a missing \<open>objects\<close> as the empty list.
\<close>

datatype file_text = Undecodable | Document "props list option" string

definition JSON_stringify :: "snapshot \<Rightarrow> file_text" where
  "JSON_stringify s = Document (Some (s_objects s)) (s_background s)"

definition JSON_parse :: "file_text \<Rightarrow> js_error + snapshot" where
  "JSON_parse txt =
     (case txt of
        Undecodable \<Rightarrow> Inl SyntaxError
      | Document os bg \<Rightarrow>
          Inr \<lparr>s_objects = (case os of None \<Rightarrow> [] | Some ps \<Rightarrow> ps), s_background = bg\<rparr>)"

text \<open>The file that \<open>saveProject\<close> offers for download; it changes no state.\<close>

definition saveProject :: "editor \<Rightarrow> file_text option" where
  "saveProject ed = map_option (\<lambda>c. JSON_stringify (toJSON c)) (canvas ed)"

text \<open>
  \<open>loadProject\<close> has no \<open>try\<close>: \<open>loadFromJSON\<close> parses the text first, and the exception of
  \<open>JSON.parse\<close> leaves the handler uncaught, with the state as it is then (\<open>Inl\<close>). The
  function it passes to \<open>loadFromJSON\<close> saves the state; as the reviver it runs once for
  every object of the document, before the canvas is cleared.
\<close>

definition loadProject :: "file_text option \<Rightarrow> editor \<Rightarrow> (js_error \<times> editor) + editor" where
  "loadProject file ed =
     (case file of
        None \<Rightarrow> Inr ed
      | Some txt \<Rightarrow>
          (case canvas ed of
             None \<Rightarrow> Inr ed
           | Some c \<Rightarrow>
               (case JSON_parse txt of
                  Inl e \<Rightarrow> Inl (e, ed)
                | Inr s \<Rightarrow> Inr (loadFromJSON s saveCurrent ed))))"

subsection \<open>The layer panel (lines 333-425 and 496)\<close>

text \<open>
  The panel lists every object of \<open>canvas.getObjects()\<close>, the grid lines too, each with its
  buttons; \<open>i\<close> is the position of the object in that list.
\<close>

definition toggleVisibility :: "nat \<Rightarrow> editor \<Rightarrow> editor" where
  "toggleVisibility i ed = edit_object i (\<lambda>p. p\<lparr>visible := \<not> visible p\<rparr>) ed"

definition toggleLock :: "nat \<Rightarrow> editor \<Rightarrow> editor" where
  "toggleLock i ed =
     ed\<lparr>canvas := map_option
          (\<lambda>c. let ob = objs c ! i; isLocked = lockMovementX ob
               in c\<lparr>objs := (objs c)[i := ob\<lparr>lockMovementX := \<not> isLocked,
                      lockMovementY := \<not> isLocked, lockScalingX := \<not> isLocked,
                      lockScalingY := \<not> isLocked, lockRotation := \<not> isLocked,
                      selectable := isLocked\<rparr>]\<rparr>)
          (canvas ed)\<rparr>"

definition openLayerModal :: "editor \<Rightarrow> editor" where
  "openLayerModal ed = ed\<lparr>isLayerModalOpen := True\<rparr>"

subsection \<open>Notions used in the statements below\<close>

text \<open>The canvas with object \<open>i\<close> put at the grid point nearest to \<open>pos\<close>.\<close>

definition placed :: "nat \<Rightarrow> rat \<times> rat \<Rightarrow> fcanvas \<Rightarrow> fcanvas" where
  "placed i pos c = c\<lparr>objs := (objs c)[i := (objs c ! i)\<lparr>props := (props (objs c ! i))
       \<lparr>oleft := snap (fst pos), otop := snap (snd pos)\<rparr>\<rparr>]\<rparr>"

text \<open>
  An image file of one pixel as a data URL, and the mounted editor after loading a project
  file that holds this image, and a click on the image.
\<close>

definition one_pixel_png :: string where
  "one_pixel_png =
     ''data:image/png;base64,iVBORw0KGgoAAAANSUhEUgAAAAEAAAABCAYAAAAfFcSJAAAADUlEQVR42mNkYPhfDwAChwGA60e6kgAAAABJRU5ErkJggg==''"

definition image_props :: props where
  "image_props = blank\<lparr>otype := ''image'', src := one_pixel_png, width := 1, height := 1\<rparr>"


text \<open>The mounted editor with one rectangle, locked in the layer panel.\<close>

definition locked_rect :: editor where
  "locked_rect = toggleLock 30 (addRectangle init_editor)"

section \<open>Properties\<close>

subsection \<open>What saving and reloading do to the state\<close>

lemma saveCurrent_Some:
  "canvas ed = Some c \<Longrightarrow> saveCurrent ed = ed\<lparr>history := history ed @ [toJSON c], redoStack := []\<rparr>"
  by (simp add: saveCurrent_def saveState_def)

lemma canvas_saveCurrent: "canvas (saveCurrent ed) = canvas ed"
  by (simp add: saveCurrent_def saveState_def split: option.splits)

lemma redoStack_saveCurrent: "canvas ed \<noteq> None \<Longrightarrow> redoStack (saveCurrent ed) = []"
  by (auto simp: saveCurrent_def saveState_def)

lemma canvas_add_Some:
  "canvas ed = Some c \<Longrightarrow>
   canvas_add ob ed = ed\<lparr>canvas := Some (c\<lparr>objs := objs c @ [ob]\<rparr>),
     history := history ed @ [toJSON (c\<lparr>objs := objs c @ [ob]\<rparr>)], redoStack := []\<rparr>"
  by (simp add: canvas_add_def saveCurrent_def saveState_def set_objs_def)

lemma canvas_remove_each:
  "canvas ed = Some c \<Longrightarrow>
   canvas (remove_each xs ed) = Some (if xs = [] then c else c\<lparr>objs := []\<rparr>)"
proof (induction xs arbitrary: ed c)
  case Nil
  then show ?case by simp
next
  case (Cons x xs)
  have "canvas (saveCurrent (set_objs xs ed)) = Some (c\<lparr>objs := xs\<rparr>)"
    using Cons.prems by (simp add: canvas_saveCurrent set_objs_def)
  from Cons.IH [OF this] show ?case by (cases xs) simp_all
qed

lemma redoStack_remove_each:
  "canvas ed = Some c \<Longrightarrow> xs \<noteq> [] \<Longrightarrow> redoStack (remove_each xs ed) = []"
proof (induction xs arbitrary: ed c)
  case Nil
  then show ?case by simp
next
  case (Cons x xs)
  let ?ed = "saveCurrent (set_objs xs ed)"
  have c: "canvas ?ed = Some (c\<lparr>objs := xs\<rparr>)"
    using Cons.prems by (simp add: canvas_saveCurrent set_objs_def)
  have r: "redoStack ?ed = []"
    using Cons.prems by (simp add: redoStack_saveCurrent set_objs_def)
  show ?case
  proof (cases xs)
    case Nil
    with r show ?thesis by simp
  next
    case (Cons y ys)
    then have "xs \<noteq> []" by simp
    from Cons.IH [OF c this] show ?thesis by simp
  qed
qed

lemma selected_remove_each:
  "selectedObject (remove_each xs ed) = selectedObject ed \<and>
   selectedText (remove_each xs ed) = selectedText ed \<and>
   isLayerModalOpen (remove_each xs ed) = isLayerModalOpen ed"
  by (induction xs arbitrary: ed)
     (simp_all add: saveCurrent_def saveState_def set_objs_def split: option.splits)

lemma canvas_fire_each: "canvas (fire_each xs ed) = canvas ed"
  by (induction xs arbitrary: ed) (simp_all add: canvas_saveCurrent)

lemma redoStack_fire_each:
  "canvas ed \<noteq> None \<Longrightarrow> xs \<noteq> [] \<or> redoStack ed = [] \<Longrightarrow> redoStack (fire_each xs ed) = []"
proof (induction xs arbitrary: ed)
  case Nil
  then show ?case by simp
next
  case (Cons x xs)
  have "canvas (saveCurrent ed) \<noteq> None" and "redoStack (saveCurrent ed) = []"
    using Cons.prems(1) by (simp_all add: canvas_saveCurrent redoStack_saveCurrent)
  with Cons.IH [of "saveCurrent ed"] show ?case by simp
qed

lemma canvas_add_all:
  "canvas ed = Some c \<Longrightarrow> canvas (add_all xs ed) = Some (c\<lparr>objs := objs c @ xs\<rparr>)"
  by (simp add: add_all_def canvas_fire_each set_objs_def)

lemma redoStack_add_all:
  "canvas ed = Some c \<Longrightarrow> xs \<noteq> [] \<or> redoStack ed = [] \<Longrightarrow> redoStack (add_all xs ed) = []"
  using redoStack_fire_each [of "set_objs (objs c @ xs) ed" xs]
  by (simp add: add_all_def set_objs_def)

lemma canvas_revive_each:
  "(\<And>e. canvas (reviver e) = canvas e) \<Longrightarrow> canvas (revive_each ps reviver ed) = canvas ed"
  by (induction ps arbitrary: ed) simp_all

lemma canvas_clear:
  "canvas ed = Some c \<Longrightarrow>
   canvas (clear ed) = Some (c\<lparr>objs := [], backgroundColor := [], active := NoSelection\<rparr>)"
  by (simp add: clear_def Let_def canvas_remove_each)

lemma redoStack_clear:
  "canvas ed = Some c \<Longrightarrow> objs c \<noteq> [] \<Longrightarrow> redoStack (clear ed) = []"
  by (simp add: clear_def Let_def redoStack_remove_each)

lemma canvas_loadFromJSON:
  assumes "canvas ed = Some c" and "\<And>e. canvas (reviver e) = canvas e"
  shows "canvas (loadFromJSON s reviver ed) =
     Some (c\<lparr>objs := map new_object (s_objects s), backgroundColor := s_background s,
             active := NoSelection\<rparr>)"
proof -
  have 1: "canvas (revive_each (s_objects s) reviver ed) = Some c"
    using assms by (simp add: canvas_revive_each)
  have 2: "canvas (clear (revive_each (s_objects s) reviver ed)) =
      Some (c\<lparr>objs := [], backgroundColor := [], active := NoSelection\<rparr>)"
    by (rule canvas_clear [OF 1])
  show ?thesis
    by (simp add: loadFromJSON_def Let_def canvas_add_all [OF 2])
qed

lemma redoStack_loadFromJSON:
  assumes "canvas ed = Some c" and "\<And>e. canvas (reviver e) = canvas e"
    and "objs c \<noteq> [] \<or> s_objects s \<noteq> []"
  shows "redoStack (loadFromJSON s reviver ed) = []"
proof -
  let ?ed1 = "revive_each (s_objects s) reviver ed"
  have 1: "canvas ?ed1 = Some c"
    using assms(1,2) by (simp add: canvas_revive_each)
  have 2: "canvas (clear ?ed1) =
      Some (c\<lparr>objs := [], backgroundColor := [], active := NoSelection\<rparr>)"
    by (rule canvas_clear [OF 1])
  have "map new_object (s_objects s) \<noteq> [] \<or> redoStack (clear ?ed1) = []"
    using assms(3) redoStack_clear [OF 1] by auto
  from redoStack_add_all [OF 2 this] show ?thesis
    by (simp add: loadFromJSON_def Let_def)
qed

lemma toJSON_revived:
  "toJSON (c\<lparr>objs := map new_object ps, backgroundColor := bg, active := a\<rparr>) =
     \<lparr>s_objects = ps, s_background = bg\<rparr>"
  by (simp add: toJSON_def new_object_def comp_def)

subsection \<open>The history stacks\<close>

text \<open>
  C2. A call of \<open>saveState\<close> empties the redo stack, and a \<open>redo\<close> after it changes
  nothing: not the canvas, not the history, not the redo stack.
\<close>

theorem saveState_empties_redoStack:
  "redoStack (saveState currentCanvas ed) = [] \<and>
   redo (saveState currentCanvas ed) = saveState currentCanvas ed"
  by (simp add: saveState_def redo_def)

text \<open>
  C3. With at most the initial snapshot in \<open>history\<close>, \<open>undo\<close> returns the state it was
  given: canvas, history and redo stack are unchanged.
\<close>

theorem undo_without_history:
  "length (history ed) \<le> 1 \<Longrightarrow> undo ed = ed"
  by (simp add: undo_def)

lemma tool_actions_then_redo:
  assumes "canvas ed = Some c"
  shows "redo (addRectangle ed) = addRectangle ed"
    and "redo (addCircle ed) = addCircle ed"
    and "redo (addText ed) = addText ed"
  using assms
  by (simp_all add: redo_def addRectangle_def addCircle_def addText_def
      canvas_add_Some saveCurrent_def saveState_def)

lemma history_init_editor: "history init_editor = [\<lparr>s_objects = [], s_background = ''#ffffff''\<rparr>]"
  by code_simp

theorem undo_without_history_witness:
  "length (history init_editor) \<le> 1 \<and> undo init_editor = init_editor"
proof -
  have h: "length (history init_editor) \<le> 1"
    by (simp add: history_init_editor)
  from undo_without_history [OF h] h show ?thesis by simp
qed

subsection \<open>Snap to grid\<close>


lemma snap_multiple: "snap v = 50 * of_int (Math_round (v / 50))"
  by (simp add: snap_def gridSize_def)

lemma snap_close: "\<bar>snap v - v\<bar> \<le> 25"
proof -
  define k where "k = \<lfloor>v / 50 + 1 / 2\<rfloor>"
  have "of_int k \<le> v / 50 + 1 / 2" "v / 50 + 1 / 2 < of_int k + 1"
    unfolding k_def by linarith+
  then have "50 * of_int k \<le> v + 25" "v + 25 < 50 * of_int k + 50"
    by (simp_all add: field_simps)
  then show ?thesis
    by (simp add: snap_def gridSize_def Math_round_def k_def [symmetric] abs_le_iff)
qed

lemma snap_nearest: "\<bar>snap v - v\<bar> \<le> \<bar>50 * of_int m - v\<bar>"
proof -
  define k where "k = \<lfloor>v / 50 + 1 / 2\<rfloor>"
  have s: "snap v = 50 * of_int k"
    by (simp add: snap_def gridSize_def Math_round_def k_def)
  have "of_int k \<le> v / 50 + 1 / 2" "v / 50 + 1 / 2 < of_int k + 1"
    unfolding k_def by linarith+
  then have b: "50 * of_int k \<le> v + 25" "v + 25 < 50 * of_int k + 50"
    by (simp_all add: field_simps)
  consider "m \<le> k - 1" | "m = k" | "k + 1 \<le> m" by linarith
  then show ?thesis
  proof cases
    case 1
    then have "(of_int m :: rat) \<le> of_int k - 1"
      by (metis of_int_1 of_int_diff of_int_le_iff)
    with b show ?thesis unfolding s by linarith
  next
    case 2
    then show ?thesis by (simp add: s)
  next
    case 3
    then have "(of_int k :: rat) + 1 \<le> of_int m"
      by (metis of_int_1 of_int_add of_int_le_iff)
    with b show ?thesis unfolding s by linarith
  qed
qed

lemma move_object_placed: "move_object i c pos = placed i pos c"
  by (simp add: move_object_def placed_def on_object_moving_def)

lemma placed_placed: "i < length (objs c) \<Longrightarrow> placed i q (placed i p c) = placed i q c"
  by (simp add: placed_def)

lemma foldl_move_object:
  "moves \<noteq> [] \<Longrightarrow> i < length (objs c) \<Longrightarrow> foldl (move_object i) c moves = placed i (last moves) c"
proof (induction moves rule: rev_induct)
  case Nil
  then show ?case by simp
next
  case (snoc m ms)
  show ?case
  proof (cases "ms = []")
    case True
    then show ?thesis by (simp add: move_object_placed)
  next
    case False
    with snoc show ?thesis by (simp add: move_object_placed placed_placed)
  qed
qed



text \<open>
  C6. A drag of an object that the pointer can grab, through at least one position, leaves
  the object at the last position with each coordinate rounded to the nearest multiple of
  50 (a half upwards), and appends exactly one snapshot to the history: that of the canvas
  with the object at its rounded last position. No position in between is saved.
\<close>

theorem drag_commits_snapped_position_once:
  assumes "canvas ed = Some c" and "i < length (objs c)"
    and "pointer_target (objs c ! i)" and "selectable (objs c ! i)" and "moves \<noteq> []"
  shows "\<exists>c'. canvas (drag i moves ed) = Some c' \<and>
           c' = placed i (last moves) (c\<lparr>active := ActiveObject i\<rparr>) \<and>
           oleft (props (objs c' ! i)) = snap (fst (last moves)) \<and>
           otop (props (objs c' ! i)) = snap (snd (last moves)) \<and>
           history (drag i moves ed) = history ed @ [toJSON c'] \<and>
           snap (fst (last moves)) = 50 * of_int (Math_round (fst (last moves) / 50)) \<and>
           snap (snd (last moves)) = 50 * of_int (Math_round (snd (last moves) / 50)) \<and>
           (\<forall>m. \<bar>snap (fst (last moves)) - fst (last moves)\<bar> \<le> \<bar>50 * of_int m - fst (last moves)\<bar>) \<and>
           (\<forall>m. \<bar>snap (snd (last moves)) - snd (last moves)\<bar> \<le> \<bar>50 * of_int m - snd (last moves)\<bar>)"
proof -
  let ?c1 = "c\<lparr>active := ActiveObject i\<rparr>"
  let ?c' = "placed i (last moves) ?c1"
  let ?ed1 = "setActiveObject (ActiveObject i) ed"
  have c1: "canvas ?ed1 = Some ?c1" and h1: "history ?ed1 = history ed"
    using assms(1) by (simp_all add: setActiveObject_def updateSelection_def)
  have f: "foldl (move_object i) ?c1 moves = ?c'"
    using assms(2,5) by (simp add: foldl_move_object)
  let ?ed2 = "?ed1\<lparr>canvas := Some ?c'\<rparr>"
  have d: "drag i moves ed = saveCurrent ?ed2"
    using assms c1 f by (simp add: drag_def Let_def)
  have s: "saveCurrent ?ed2 = ?ed2\<lparr>history := history ?ed2 @ [toJSON ?c'], redoStack := []\<rparr>"
    by (rule saveCurrent_Some) simp
  have c: "canvas (drag i moves ed) = Some ?c'"
    unfolding d s by simp
  have h: "history (drag i moves ed) = history ed @ [toJSON ?c']"
    unfolding d s using h1 by simp
  have p: "oleft (props (objs ?c' ! i)) = snap (fst (last moves))"
    "otop (props (objs ?c' ! i)) = snap (snd (last moves))"
    using assms(2) by (simp_all add: placed_def)
  show ?thesis
    using c h p snap_multiple snap_nearest by blast
qed

text \<open>
  The drag of the rectangle through (23, 31) to (47, 53) commits (50, 50) and one snapshot.
\<close>

theorem drag_commits_snapped_position_once_witness:
  "\<exists>c. canvas (addRectangle init_editor) = Some c \<and> 30 < length (objs c) \<and>
       pointer_target (objs c ! 30) \<and> selectable (objs c ! 30) \<and>
       [(23, 31), (47, 53 :: rat)] \<noteq> [] \<and>
       (\<exists>c'. canvas (drag 30 [(23, 31), (47, 53)] (addRectangle init_editor)) = Some c' \<and>
          oleft (props (objs c' ! 30)) = 50 \<and> otop (props (objs c' ! 30)) = 50 \<and>
          history (drag 30 [(23, 31), (47, 53)] (addRectangle init_editor)) =
            history (addRectangle init_editor) @ [toJSON c'])"
proof -
  define c where "c = the (canvas (addRectangle init_editor))"
  have h1: "canvas (addRectangle init_editor) = Some c"
    unfolding c_def by code_simp
  have h2: "30 < length (objs c)"
    unfolding c_def by code_simp
  have h3: "pointer_target (objs c ! 30)"
    unfolding c_def by code_simp
  have h4: "selectable (objs c ! 30)"
    unfolding c_def by code_simp
  have h5: "[(23, 31), (47, 53 :: rat)] \<noteq> []"
    by simp
  have s: "snap 47 = 50"
    by code_simp
  have t: "snap 53 = 50"
    by code_simp
  from drag_commits_snapped_position_once [OF h1 h2 h3 h4 h5] h1 h2 h3 h4 s t
  show ?thesis by auto
qed

subsection \<open>Undo and redo after reloading; image import; grid lines\<close>

lemma redoStack_undo:
  assumes "canvas ed = Some c" and "objs c \<noteq> []" and "1 < length (history ed)"
  shows "redoStack (undo ed) = []"
proof -
  let ?ed1 = "ed\<lparr>redoStack := redoStack ed @ [last (history ed)], history := butlast (history ed)\<rparr>"
  have c1: "canvas ?ed1 = Some c"
    using assms(1) by simp
  have "redoStack (loadFromJSON (history ed ! (length (history ed) - 2))
          (\<lambda>e. e\<lparr>history := butlast (history ed)\<rparr>) ?ed1) = []"
    by (rule redoStack_loadFromJSON [OF c1]) (simp_all add: assms(2))
  then show ?thesis
    using assms(1,3) by (simp add: undo_def Let_def)
qed

lemma redo_after_undo:
  assumes "canvas ed = Some c" and "objs c \<noteq> []" and "1 < length (history ed)"
  shows "redo (undo ed) = undo ed"
  using redoStack_undo [OF assms] by (simp add: redo_def)

text \<open>
  C1. Two commands, two undos and two redos do not bring back the serialised canvas of
  before the first undo. Reloading the canvas in \<open>undo\<close> fires the listeners of lines
  428-435: their \<open>saveState\<close> empties the redo stack, so both redos do nothing, and it
  appends snapshots taken while the canvas is reloaded, which the next \<open>undo\<close> then loads.
  The run ends with both shapes on the canvas and the background lost, after 41 snapshots.
\<close>

theorem undo_twice_redo_twice_loses_the_background:
  "map_option toJSON (canvas (addCircle (addRectangle init_editor))) =
     Some \<lparr>s_objects = [props new_Rect, props new_Circle], s_background = ''#ffffff''\<rparr> \<and>
   map_option toJSON (canvas (redo (redo (undo (undo (addCircle (addRectangle init_editor))))))) =
     Some \<lparr>s_objects = [props new_Rect, props new_Circle], s_background = []\<rparr> \<and>
   redoStack (undo (addCircle (addRectangle init_editor))) = [] \<and>
   length (history (undo (addCircle (addRectangle init_editor)))) = 38 \<and>
   length (history (redo (redo (undo (undo (addCircle (addRectangle init_editor))))))) = 41"
  by code_simp

lemma handleImageUpload_drops_callback: "handleImageUpload file ed = ed"
  by (simp add: handleImageUpload_def FabricImage_fromURL_def split: option.splits)

text \<open>
  C8. An image import adds no image and records nothing: the function that scales and
  adds the image and saves the state is handed to \<open>FabricImage.fromURL\<close> as a callback,
  and the library never calls it. After the import of an image file the mounted editor
  still holds the 30 grid lines only, and its one snapshot.
\<close>

theorem image_upload_adds_nothing:
  "map_option (map (otype \<circ> props) \<circ> objs)
     (canvas (handleImageUpload (Some \<lparr>data_url = one_pixel_png\<rparr>) init_editor)) =
     Some (replicate 30 ''line'') \<and>
   length (history (handleImageUpload (Some \<lparr>data_url = one_pixel_png\<rparr>) init_editor)) = 1"
  by code_simp

lemma drawGrid_flags:
  "ob \<in> set (objs (drawGrid c)) \<Longrightarrow>
   ob \<in> set (objs c) \<or>
   (otype (props ob) = ''line'' \<and> \<not> selectable ob \<and> \<not> evented ob \<and> excludeFromExport ob)"
  by (auto simp: drawGrid_def Let_def vertical_line_def horizontal_line_def new_object_def)

lemma init_editor_grid:
  "map_option (\<lambda>c. (length (objs c),
      list_all (\<lambda>ob. \<not> selectable ob \<and> \<not> evented ob \<and> excludeFromExport ob) (objs c),
      s_objects (toJSON c))) (canvas init_editor) = Some (30, True, [])"
  by code_simp

lemma toggleLock_keeps_export_flags:
  "canvas ed = Some c \<Longrightarrow> i < length (objs c) \<Longrightarrow>
   \<exists>c'. canvas (toggleLock i ed) = Some c' \<and>
     map excludeFromExport (objs c') = map excludeFromExport (objs c) \<and>
     map evented (objs c') = map evented (objs c)"
  by (simp add: toggleLock_def Let_def map_update list_update_same_conv)

text \<open>
  C10. The grid lines are built unselectable, without events and excluded from export
  (\<open>drawGrid_flags\<close>), and they are not in the JSON of the canvas. But the layer panel
  lists them, and locking and unlocking one there leaves it selectable: a selection
  rectangle over the first grid line then makes it the active object of the canvas.
\<close>

theorem unlocked_grid_line_becomes_active:
  "map_option (\<lambda>c. (active c, objs c ! 0))
     (canvas (select_area [0] (toggleLock 0 (toggleLock 0 init_editor)))) =
     Some (ActiveObject 0, (vertical_line 0 600)\<lparr>selectable := True\<rparr>)"
  by code_simp

subsection \<open>Toolbar actions and filters\<close>


lemma addRectangle_Some:
  "canvas ed = Some c \<Longrightarrow>
   canvas (addRectangle ed) = Some (c\<lparr>objs := objs c @ [new_Rect]\<rparr>)"
  by (simp add: addRectangle_def canvas_add_Some canvas_saveCurrent)

lemma addCircle_Some:
  "canvas ed = Some c \<Longrightarrow>
   canvas (addCircle ed) = Some (c\<lparr>objs := objs c @ [new_Circle]\<rparr>)"
  by (simp add: addCircle_def canvas_add_Some canvas_saveCurrent)

lemma addText_Some:
  "canvas ed = Some c \<Longrightarrow>
   canvas (addText ed) = Some (c\<lparr>objs := objs c @ [new_IText]\<rparr>)"
  by (simp add: addText_def canvas_add_Some canvas_saveCurrent)

text \<open>
  C7, as stated, fails: two invocations of \<open>addRectangle\<close> on the mounted editor insert
  two rectangles.
\<close>

theorem double_insert_counterexample:
  "map_option (length \<circ> objs) (canvas init_editor) = Some 30 \<and>
   map_option (length \<circ> objs) (canvas (addRectangle (addRectangle init_editor))) = Some 32"
  by code_simp

text \<open>
  C7, amended. On a mounted canvas every invocation of \<open>addRectangle\<close>, \<open>addCircle\<close> or
  \<open>addText\<close> appends one object, so two invocations in succession insert two objects.
  Opening the layer panel twice is the same as opening it once, and saving the project
  only reads the canvas.
\<close>

theorem insert_appends_on_every_invocation:
  assumes "canvas ed = Some c"
  shows "map_option objs (canvas (addRectangle (addRectangle ed))) =
           Some (objs c @ [new_Rect, new_Rect]) \<and>
         map_option objs (canvas (addCircle (addCircle ed))) =
           Some (objs c @ [new_Circle, new_Circle]) \<and>
         map_option objs (canvas (addText (addText ed))) =
           Some (objs c @ [new_IText, new_IText]) \<and>
         openLayerModal (openLayerModal ed) = openLayerModal ed \<and>
         saveProject ed = Some (JSON_stringify (toJSON c))"
proof -
  have r: "map_option objs (canvas (addRectangle (addRectangle ed))) =
           Some (objs c @ [new_Rect, new_Rect])"
    using addRectangle_Some [OF addRectangle_Some [OF assms]] by simp
  have ci: "map_option objs (canvas (addCircle (addCircle ed))) =
           Some (objs c @ [new_Circle, new_Circle])"
    using addCircle_Some [OF addCircle_Some [OF assms]] by simp
  have t: "map_option objs (canvas (addText (addText ed))) =
           Some (objs c @ [new_IText, new_IText])"
    using addText_Some [OF addText_Some [OF assms]] by simp
  have m: "openLayerModal (openLayerModal ed) = openLayerModal ed"
    by (simp add: openLayerModal_def)
  have s: "saveProject ed = Some (JSON_stringify (toJSON c))"
    using assms by (simp add: saveProject_def)
  from r ci t m s show ?thesis by simp
qed

theorem insert_appends_on_every_invocation_witness:
  "\<exists>c. canvas init_editor = Some c \<and>
       map_option objs (canvas (addRectangle (addRectangle init_editor))) =
         Some (objs c @ [new_Rect, new_Rect]) \<and>
       map_option objs (canvas (addCircle (addCircle init_editor))) =
         Some (objs c @ [new_Circle, new_Circle]) \<and>
       map_option objs (canvas (addText (addText init_editor))) =
         Some (objs c @ [new_IText, new_IText]) \<and>
       openLayerModal (openLayerModal init_editor) = openLayerModal init_editor \<and>
       saveProject init_editor = Some (JSON_stringify (toJSON c))"
proof -
  define c where "c = the (canvas init_editor)"
  have h: "canvas init_editor = Some c"
    unfolding c_def by code_simp
  from insert_appends_on_every_invocation [OF h] h show ?thesis by blast
qed

lemma loadProject_image:
  "loadProject (Some (Document (Some [image_props]) ''#ffffff'')) init_editor =
     Inr (loadFromJSON \<lparr>s_objects = [image_props], s_background = ''#ffffff''\<rparr> saveCurrent
            init_editor)"
  by code_simp

lemma applyFilter_toolbar_types:
  assumes "filterType = ''grayscale'' \<or> filterType = ''sepia''"
  shows "applyFilter filterType ed = Inr ed \<or> applyFilter filterType ed = Inl (TypeError, ed)"
  using assms
  by (auto simp: applyFilter_def chosen_filters_def new_ImageFilter_def
      split: option.splits selection.splits)


subsection \<open>Saving and loading a project\<close>

text \<open>
  C4, as stated, fails: the editor with the grid and one locked rectangle holds 31 objects,
  the rectangle locked and not selectable; saving and loading the saved file leaves one
  object, the rectangle, unlocked and selectable.
\<close>

theorem save_load_counterexample:
  "map_option (\<lambda>c. (length (objs c), lockMovementX (objs c ! 30), selectable (objs c ! 30)))
     (canvas locked_rect) = Some (31, True, False) \<and>
   (case loadProject (saveProject locked_rect) locked_rect of
      Inl e \<Rightarrow> False
    | Inr ed' \<Rightarrow> map_option objs (canvas ed') = Some [new_Rect])"
  by code_simp

lemma JSON_parse_stringify: "JSON_parse (JSON_stringify s) = Inr s"
  by (simp add: JSON_parse_def JSON_stringify_def)

lemma loadProject_Document:
  assumes "canvas ed = Some c"
  shows "\<exists>ed'. loadProject (Some (Document os bg)) ed = Inr ed' \<and>
           canvas ed' = Some (c\<lparr>objs := map new_object (case os of None \<Rightarrow> [] | Some ps \<Rightarrow> ps),
                                  backgroundColor := bg, active := NoSelection\<rparr>)"
proof -
  let ?s = "\<lparr>s_objects = (case os of None \<Rightarrow> [] | Some ps \<Rightarrow> ps), s_background = bg\<rparr>"
  have l: "canvas (loadFromJSON ?s saveCurrent ed) =
      Some (c\<lparr>objs := map new_object (s_objects ?s), backgroundColor := s_background ?s,
              active := NoSelection\<rparr>)"
    by (rule canvas_loadFromJSON [OF assms]) (rule canvas_saveCurrent)
  have p: "loadProject (Some (Document os bg)) ed = Inr (loadFromJSON ?s saveCurrent ed)"
    using assms by (simp add: loadProject_def JSON_parse_def)
  show ?thesis
    unfolding p using l by simp
qed

text \<open>
  C4, amended. Saving a mounted editor and loading the saved file reconstructs exactly the
  objects that are not excluded from export, in the same z-order, with the same serialised
  attributes and the same background, so the canvas serialises as before. The flags the
  file does not hold come back with their default values.
\<close>

theorem save_then_load:
  assumes "canvas ed = Some c"
  shows "\<exists>file ed' c'. saveProject ed = Some file \<and> loadProject (Some file) ed = Inr ed' \<and>
           canvas ed' = Some c' \<and>
           objs c' = map new_object (map props (filter (\<lambda>ob. \<not> excludeFromExport ob) (objs c))) \<and>
           map props (objs c') = map props (filter (\<lambda>ob. \<not> excludeFromExport ob) (objs c)) \<and>
           backgroundColor c' = backgroundColor c \<and>
           toJSON c' = toJSON c"
proof -
  let ?ps = "map props (filter (\<lambda>ob. \<not> excludeFromExport ob) (objs c))"
  have f: "saveProject ed = Some (Document (Some ?ps) (backgroundColor c))"
    using assms by (simp add: saveProject_def JSON_stringify_def toJSON_def)
  from loadProject_Document [OF assms, of "Some ?ps" "backgroundColor c"]
  obtain ed' where l: "loadProject (Some (Document (Some ?ps) (backgroundColor c))) ed = Inr ed'"
    and c': "canvas ed' = Some (c\<lparr>objs := map new_object ?ps,
               backgroundColor := backgroundColor c, active := NoSelection\<rparr>)"
    by auto
  have t: "toJSON (c\<lparr>objs := map new_object ?ps, backgroundColor := backgroundColor c,
             active := NoSelection\<rparr>) = toJSON c"
  proof -
    have "toJSON (c\<lparr>objs := map new_object ?ps, backgroundColor := backgroundColor c,
             active := NoSelection\<rparr>) = \<lparr>s_objects = ?ps, s_background = backgroundColor c\<rparr>"
      by (rule toJSON_revived)
    also have "\<dots> = toJSON c"
      by (simp add: toJSON_def)
    finally show ?thesis .
  qed
  have m: "map props (map new_object ?ps) = ?ps"
    by (simp add: new_object_def comp_def)
  from f l c' t m show ?thesis by simp
qed

theorem save_then_load_witness:
  "\<exists>c. canvas locked_rect = Some c \<and>
    (\<exists>file ed' c'. saveProject locked_rect = Some file \<and>
       loadProject (Some file) locked_rect = Inr ed' \<and> canvas ed' = Some c' \<and>
       objs c' = [new_Rect] \<and> toJSON c' = toJSON c)"
proof -
  define c where "c = the (canvas locked_rect)"
  have h: "canvas locked_rect = Some c"
    unfolding c_def by code_simp
  have e: "map new_object (map props (filter (\<lambda>ob. \<not> excludeFromExport ob) (objs c))) = [new_Rect]"
    unfolding c_def by code_simp
  from save_then_load [OF h] h e show ?thesis by auto
qed




end
